theory Spec2Isabelle
  imports Complex_Main
begin

section \<open>Values of the feed\<close>

text \<open>
  The manager of \<^verbatim>\<open>Bitget_Spot_Orderbook.py\<close> (and its near copy \<^verbatim>\<open>app.py\<close>) reads
  JSON from the exchange. A parsed JSON value is what \<^verbatim>\<open>json.loads\<close> returns: \<^verbatim>\<open>None\<close>,
  a bool, an int, a string, a list or a dict with string keys. JSON numbers with a fraction
  (Python floats) are left out: the exchange sends prices and quantities as strings.
  An object is the list of its key/value pairs in order, keys distinct.
\<close>

datatype jval =
    JNull
  | JBool bool
  | JInt int
  | JStr string
  | JArr "jval list"
  | JObj "(string \<times> jval) list"

datatype py_error =
    AttributeError | TypeError | IndexError | KeyError | InvalidOperation
  | ConnectionError | JSONDecodeError

text \<open>Python truthiness, as used by \<^verbatim>\<open>x or y\<close>, \<^verbatim>\<open>not x\<close> and \<^verbatim>\<open>if x\<close>.\<close>

fun truthy :: "jval \<Rightarrow> bool" where
  "truthy JNull = False"
| "truthy (JBool b) = b"
| "truthy (JInt n) = (n \<noteq> 0)"
| "truthy (JStr s) = (s \<noteq> [])"
| "truthy (JArr xs) = (xs \<noteq> [])"
| "truthy (JObj kvs) = (kvs \<noteq> [])"

text \<open>\<^verbatim>\<open>d.get(k)\<close> on a dict: \<^verbatim>\<open>None\<close> when the key is absent.\<close>

definition dict_get :: "(string \<times> jval) list \<Rightarrow> string \<Rightarrow> jval" where
  "dict_get kvs k = (case map_of kvs k of None \<Rightarrow> JNull | Some v \<Rightarrow> v)"

text \<open>\<^verbatim>\<open>d.get(k, default)\<close>.\<close>

definition dict_get_default :: "(string \<times> jval) list \<Rightarrow> string \<Rightarrow> jval \<Rightarrow> jval" where
  "dict_get_default kvs k dflt = (case map_of kvs k of None \<Rightarrow> dflt | Some v \<Rightarrow> v)"

text \<open>\<^verbatim>\<open>a or b\<close>: the first operand when it is truthy, the second otherwise.\<close>

definition py_or :: "jval \<Rightarrow> jval \<Rightarrow> jval" where
  "py_or a b = (if truthy a then a else b)"

text \<open>
  \<^verbatim>\<open>for x in v\<close>: a list gives its items, a string its characters (as strings of length
  one), a dict its keys; anything else raises \<^verbatim>\<open>TypeError\<close> (\<open>None\<close> here).
\<close>

fun py_iter :: "jval \<Rightarrow> jval list option" where
  "py_iter (JArr xs) = Some xs"
| "py_iter (JStr s) = Some (map (\<lambda>c. JStr [c]) s)"
| "py_iter (JObj kvs) = Some (map (\<lambda>kv. JStr (fst kv)) kvs)"
| "py_iter _ = None"

text \<open>\<^verbatim>\<open>len(v)\<close>: \<^verbatim>\<open>TypeError\<close> (\<open>None\<close>) on \<^verbatim>\<open>None\<close>, bools and ints.\<close>

fun py_len :: "jval \<Rightarrow> nat option" where
  "py_len (JArr xs) = Some (length xs)"
| "py_len (JStr s) = Some (length s)"
| "py_len (JObj kvs) = Some (length kvs)"
| "py_len _ = None"

text \<open>
  \<^verbatim>\<open>v[i]\<close> for the non-negative literal indices the code uses: \<^verbatim>\<open>IndexError\<close> past the end
  of a list or string, \<^verbatim>\<open>KeyError\<close> on a dict (its keys are strings, never the int
  \<open>i\<close>), \<^verbatim>\<open>TypeError\<close> on the rest.
\<close>

fun py_index :: "jval \<Rightarrow> nat \<Rightarrow> py_error + jval" where
  "py_index (JArr xs) i = (if i < length xs then Inr (xs ! i) else Inl IndexError)"
| "py_index (JStr s) i = (if i < length s then Inr (JStr [s ! i]) else Inl IndexError)"
| "py_index (JObj kvs) i = Inl KeyError"
| "py_index _ i = Inl TypeError"

section \<open>Decimals\<close>

text \<open>
  \<^verbatim>\<open>Decimal\<close> values are modelled by the rational they denote. Equal numbers are equal
  dict keys in Python (\<^verbatim>\<open>Decimal("1.0") == Decimal("1")\<close>, same hash), as they are here.
  The context's 28 significant digits are taken to be enough for the operands, so that
  sums, differences and quotients are exact; the special values \<^verbatim>\<open>NaN\<close> and
  \<^verbatim>\<open>Infinity\<close>, surrounding white space and underscores inside a numeral, which
  \<^verbatim>\<open>Decimal(str)\<close> also accepts, are outside the model.
\<close>

type_synonym decimal = rat

text \<open>The place of a character in a string, counted from 0.\<close>

fun position :: "char \<Rightarrow> string \<Rightarrow> nat option" where
  "position c [] = None"
| "position c (d # ds) = (if c = d then Some 0 else map_option Suc (position c ds))"

definition digit_of :: "char \<Rightarrow> nat option" where
  "digit_of c = position c ''0123456789''"

definition is_digit :: "char \<Rightarrow> bool" where
  "is_digit c = (digit_of c \<noteq> None)"

fun digits_val :: "nat \<Rightarrow> string \<Rightarrow> nat" where
  "digits_val acc [] = acc"
| "digits_val acc (c # cs) =
     digits_val (10 * acc + (case digit_of c of Some d \<Rightarrow> d | None \<Rightarrow> 0)) cs"

text \<open>An optional sign: the flag says whether it was a minus.\<close>

fun strip_sign :: "string \<Rightarrow> bool \<times> string" where
  "strip_sign [] = (False, [])"
| "strip_sign (c # cs) =
     (if c = CHR ''-'' then (True, cs)
      else if c = CHR ''+'' then (False, cs)
      else (False, c # cs))"

text \<open>The exponent part after the indicator: an optional sign and at least one digit.\<close>

definition parse_exponent :: "string \<Rightarrow> int option" where
  "parse_exponent s =
     (case strip_sign s of (neg, ds) \<Rightarrow>
        if ds \<noteq> [] \<and> list_all is_digit ds
        then Some (if neg then - int (digits_val 0 ds) else int (digits_val 0 ds))
        else None)"

text \<open>
  The decimal part: \<^verbatim>\<open>digits '.' [digits]\<close> or \<^verbatim>\<open>['.'] digits\<close>. The result is the
  coefficient and the number of digits after the point.
\<close>

definition parse_decimal_part :: "string \<Rightarrow> (nat \<times> nat) option" where
  "parse_decimal_part s =
     (let ip = takeWhile is_digit s; r = dropWhile is_digit s
      in case r of
           [] \<Rightarrow> if ip = [] then None else Some (digits_val 0 ip, 0)
         | c # fp \<Rightarrow>
             if c = CHR ''.'' \<and> list_all is_digit fp \<and> (ip \<noteq> [] \<or> fp \<noteq> [])
             then Some (digits_val 0 (ip @ fp), length fp)
             else None)"

definition is_indicator :: "char \<Rightarrow> bool" where
  "is_indicator c = (c = CHR ''e'' \<or> c = CHR ''E'')"

definition scale10 :: "int \<Rightarrow> decimal" where
  "scale10 e = (if 0 \<le> e then 10 ^ nat e else 1 / 10 ^ nat (- e))"

text \<open>
  \<^verbatim>\<open>Decimal(s)\<close> on a finite numeric string
  \<^verbatim>\<open>[sign] decimal-part [indicator [sign] digits]\<close>; \<open>None\<close> is
  \<^verbatim>\<open>InvalidOperation\<close>.
\<close>

definition parse_decimal :: "string \<Rightarrow> decimal option" where
  "parse_decimal s =
     (case strip_sign s of (neg, body) \<Rightarrow>
       (let m = takeWhile (\<lambda>c. \<not> is_indicator c) body;
            ex = dropWhile (\<lambda>c. \<not> is_indicator c) body
        in case parse_decimal_part m of
             None \<Rightarrow> None
           | Some (coeff, nfrac) \<Rightarrow>
               (case (if ex = [] then Some 0 else parse_exponent (tl ex)) of
                  None \<Rightarrow> None
                | Some e \<Rightarrow>
                    let v = of_nat coeff * scale10 (e - int nfrac)
                    in Some (if neg then - v else v))))"

text \<open>
  The helper \<^verbatim>\<open>D(x)\<close>: \<^verbatim>\<open>Decimal(str(x))\<close>, and \<^verbatim>\<open>Decimal(0)\<close> when that raises.
  \<^verbatim>\<open>str\<close> of \<^verbatim>\<open>None\<close>, of a bool, of a list and of a dict is never a numeral.
\<close>

fun D :: "jval \<Rightarrow> decimal" where
  "D (JInt n) = of_int n"
| "D (JStr s) = (case parse_decimal s of Some d \<Rightarrow> d | None \<Rightarrow> 0)"
| "D _ = 0"

section \<open>The book\<close>

text \<open>
  A book side is a Python dict from price to quantity. Python dicts keep insertion
  order, and the ranking below sorts \<^verbatim>\<open>items()\<close> stably, so a side is the list of its
  items in insertion order, keys distinct.
\<close>

type_synonym level = "decimal \<times> decimal"
type_synonym side = "level list"

text \<open>\<^verbatim>\<open>d[k] = v\<close>: an existing key keeps its place, a new key goes to the end.\<close>

fun dict_set :: "decimal \<Rightarrow> decimal \<Rightarrow> side \<Rightarrow> side" where
  "dict_set k v [] = [(k, v)]"
| "dict_set k v ((a, b) # ps) =
     (if a = k then (a, v) # ps else (a, b) # dict_set k v ps)"

text \<open>\<^verbatim>\<open>d.pop(k, None)\<close>: no error when the key is absent.\<close>

fun dict_pop :: "decimal \<Rightarrow> side \<Rightarrow> side" where
  "dict_pop k [] = []"
| "dict_pop k ((a, b) # ps) = (if a = k then ps else (a, b) # dict_pop k ps)"

record manager =
  bids :: side
  asks :: side
  last_price_str :: string
  prev_price_str :: string
  symbol :: string
  top_n :: int
  running :: bool

text \<open>The constructor \<^verbatim>\<open>BitgetManager.__init__\<close>.\<close>

definition init_manager :: manager where
  "init_manager =
     \<lparr>bids = [], asks = [], last_price_str = [], prev_price_str = [],
      symbol = ''BTCUSDT'', top_n = 5, running = False\<rparr>"

definition clear_books :: "manager \<Rightarrow> manager" where
  "clear_books m = m\<lparr>bids := [], asks := []\<rparr>"

subsection \<open>Stream deltas: \<^verbatim>\<open>apply_books\<close>\<close>

text \<open>
  One side's inner loop. The \<^verbatim>\<open>try\<close> around \<^verbatim>\<open>D(it[0]), D(it[1])\<close> skips an entry
  whose indexing raises; a zero quantity pops the price, any other quantity is stored.
\<close>

fun apply_levels :: "jval list \<Rightarrow> side \<Rightarrow> side" where
  "apply_levels [] s = s"
| "apply_levels (it # its) s =
     (case (py_index it 0, py_index it 1) of
        (Inr a, Inr b) \<Rightarrow>
          (let p = D a; q = D b
           in apply_levels its (if q = 0 then dict_pop p s else dict_set p q s))
      | _ \<Rightarrow> apply_levels its s)"

text \<open>
  The loop over the blocks. A block that is not a dict is skipped. A \<^verbatim>\<open>bids\<close> or
  \<^verbatim>\<open>asks\<close> value that cannot be iterated raises \<^verbatim>\<open>TypeError\<close> out of the method; what
  was merged up to then stays in the book, so the result is the raised error, if any,
  together with the state.
\<close>

fun apply_books :: "jval list \<Rightarrow> manager \<Rightarrow> py_error option \<times> manager" where
  "apply_books [] m = (None, m)"
| "apply_books (JObj kvs # blocks) m =
     (case py_iter (dict_get_default kvs ''bids'' (JArr [])) of
        None \<Rightarrow> (Some TypeError, m)
      | Some bs \<Rightarrow>
          (let m1 = m\<lparr>bids := apply_levels bs (bids m)\<rparr>
           in case py_iter (dict_get_default kvs ''asks'' (JArr [])) of
                None \<Rightarrow> (Some TypeError, m1)
              | Some as \<Rightarrow> apply_books blocks (m1\<lparr>asks := apply_levels as (asks m1)\<rparr>)))"
| "apply_books (_ # blocks) m = apply_books blocks m"

subsection \<open>REST responses\<close>

text \<open>
  What \<^verbatim>\<open>session.get\<close> gives: a raised network error, or a response with its status
  code and the outcome of \<^verbatim>\<open>r.json()\<close> (\<open>None\<close> when the body is not JSON).
\<close>

datatype http_result = NetworkError | Response int "jval option"

text \<open>\<^verbatim>\<open>js = r.json() if r.status_code == 200 else {}\<close>, inside the \<^verbatim>\<open>try\<close>.\<close>

fun response_json :: "http_result \<Rightarrow> py_error + jval" where
  "response_json NetworkError = Inl ConnectionError"
| "response_json (Response st body) =
     (if st = 200
      then (case body of None \<Rightarrow> Inl JSONDecodeError | Some js \<Rightarrow> Inr js)
      else Inr (JObj []))"

text \<open>\<^verbatim>\<open>x.get(k)\<close> on any value: only a dict has the method.\<close>

fun py_get :: "jval \<Rightarrow> string \<Rightarrow> py_error + jval" where
  "py_get (JObj kvs) k = Inr (dict_get kvs k)"
| "py_get _ k = Inl AttributeError"

subsection \<open>Bootstrap: \<^verbatim>\<open>init_snapshot_and_price\<close>\<close>

text \<open>
  The first \<^verbatim>\<open>try\<close> block up to the lock: the raw bid and ask lists of the response,
  or the exception that sends control to the \<^verbatim>\<open>except\<close> clause.
\<close>

definition snapshot_inputs :: "http_result \<Rightarrow> py_error + (jval \<times> jval)" where
  "snapshot_inputs r =
     (case response_json r of
        Inl e \<Rightarrow> Inl e
      | Inr js \<Rightarrow>
          (case py_get js ''data'' of
             Inl e \<Rightarrow> Inl e
           | Inr d \<Rightarrow>
               (let data = py_or d (JObj [])
                in case py_get data ''bids'' of
                     Inl e \<Rightarrow> Inl e
                   | Inr b \<Rightarrow>
                       (case py_get data ''asks'' of
                          Inl e \<Rightarrow> Inl e
                        | Inr a \<Rightarrow> Inr (py_or b (JArr []), py_or a (JArr []))))))"

text \<open>
  One side's loop under the lock. A falsy or short item is skipped; every other item is
  stored as it parses, with no test on the quantity. \<^verbatim>\<open>len\<close> of a number and
  \<^verbatim>\<open>item[0]\<close> on a dict raise, which ends the loop with the levels stored so far.
\<close>

fun snapshot_levels :: "jval list \<Rightarrow> side \<Rightarrow> py_error option \<times> side" where
  "snapshot_levels [] s = (None, s)"
| "snapshot_levels (item # items) s =
     (if \<not> truthy item then snapshot_levels items s
      else case py_len item of
             None \<Rightarrow> (Some TypeError, s)
           | Some n \<Rightarrow>
               if n < 2 then snapshot_levels items s
               else (case py_index item 0 of
                       Inl e \<Rightarrow> (Some e, s)
                     | Inr p \<Rightarrow>
                         (case py_index item 1 of
                            Inl e \<Rightarrow> (Some e, s)
                          | Inr q \<Rightarrow> snapshot_levels items (dict_set (D p) (D q) s))))"

text \<open>
  The order-book half. An exception before the lock leaves the book as it was; under
  the lock both sides are cleared first, and an exception inside a loop leaves what
  the loops had stored.
\<close>

definition init_snapshot_books :: "http_result \<Rightarrow> manager \<Rightarrow> manager" where
  "init_snapshot_books r m =
     (case snapshot_inputs r of
        Inl e \<Rightarrow> m
      | Inr (raw_bids, raw_asks) \<Rightarrow>
          (let m0 = m\<lparr>bids := [], asks := []\<rparr>
           in case py_iter raw_bids of
                None \<Rightarrow> m0
              | Some bs \<Rightarrow>
                  (case snapshot_levels bs [] of
                     (Some e, s) \<Rightarrow> m0\<lparr>bids := s\<rparr>
                   | (None, s) \<Rightarrow>
                       (let m1 = m0\<lparr>bids := s\<rparr>
                        in case py_iter raw_asks of
                             None \<Rightarrow> m1
                           | Some as \<Rightarrow> m1\<lparr>asks := snd (snapshot_levels as [])\<rparr>))))"

subsection \<open>Text of a value: \<^verbatim>\<open>str(p)\<close>\<close>

definition digit_char :: "nat \<Rightarrow> char" where
  "digit_char d = ''0123456789'' ! d"

fun show_nat :: "nat \<Rightarrow> string" where
  "show_nat n = (if n < 10 then [digit_char n] else show_nat (n div 10) @ [digit_char (n mod 10)])"

definition show_int :: "int \<Rightarrow> string" where
  "show_int i = (if i < 0 then CHR ''-'' # show_nat (nat (- i)) else show_nat (nat i))"

fun join_comma :: "string list \<Rightarrow> string" where
  "join_comma [] = []"
| "join_comma [x] = x"
| "join_comma (x # y # ys) = x @ '', '' @ join_comma (y # ys)"

text \<open>
  \<^verbatim>\<open>repr\<close> of a value inside a list or dict. Strings are put between single quotes
  as they are: the escapes Python writes for quotes, backslashes and control characters
  are not modelled.
\<close>

fun py_repr :: "jval \<Rightarrow> string" where
  "py_repr JNull = ''None''"
| "py_repr (JBool b) = (if b then ''True'' else ''False'')"
| "py_repr (JInt n) = show_int n"
| "py_repr (JStr s) = CHR 0x27 # s @ [CHR 0x27]"
| "py_repr (JArr xs) = ''['' @ join_comma (map py_repr xs) @ '']''"
| "py_repr (JObj kvs) =
     ''{'' @ join_comma (map (\<lambda>kv. CHR 0x27 # fst kv @ [CHR 0x27] @ '': '' @ py_repr (snd kv)) kvs)
       @ ''}''"

fun py_str :: "jval \<Rightarrow> string" where
  "py_str (JStr s) = s"
| "py_str v = py_repr v"

text \<open>
  The price a ticker response carries, shared by the bootstrap and the poll loop:
  \<^verbatim>\<open>data = js.get("data")\<close>, and when that is a non-empty list,
  \<^verbatim>\<open>p = entry.get("lastPr") or entry.get("last") or entry.get("price")\<close> of its first
  entry. \<open>Inr None\<close> is "nothing to set" (\<^verbatim>\<open>p is None\<close>, or no list).
\<close>

definition ticker_price :: "jval \<Rightarrow> py_error + jval option" where
  "ticker_price js =
     (case py_get js ''data'' of
        Inl e \<Rightarrow> Inl e
      | Inr data \<Rightarrow>
          (case data of
             JArr (entry # rest) \<Rightarrow>
               (case entry of
                  JObj kvs \<Rightarrow>
                    (let p = py_or (py_or (dict_get kvs ''lastPr'') (dict_get kvs ''last''))
                                (dict_get kvs ''price'')
                     in Inr (if p = JNull then None else Some p))
                | _ \<Rightarrow> Inl AttributeError)
           | _ \<Rightarrow> Inr None))"

text \<open>
  The ticker half of the bootstrap: whenever a price is found it is stored, and the
  old current price moves to previous, with no comparison of the two.
\<close>

definition init_snapshot_ticker :: "http_result \<Rightarrow> manager \<Rightarrow> manager" where
  "init_snapshot_ticker r m =
     (case response_json r of
        Inl e \<Rightarrow> m
      | Inr js \<Rightarrow>
          (case ticker_price js of
             Inr (Some p) \<Rightarrow> m\<lparr>prev_price_str := last_price_str m, last_price_str := py_str p\<rparr>
           | _ \<Rightarrow> m))"

definition init_snapshot_and_price :: "http_result \<Rightarrow> http_result \<Rightarrow> manager \<Rightarrow> manager" where
  "init_snapshot_and_price book_resp ticker_resp m =
     init_snapshot_ticker ticker_resp (init_snapshot_books book_resp m)"

subsection \<open>REST poll: one pass of \<^verbatim>\<open>_ticker_poll_loop\<close>\<close>

text \<open>
  Only a 200 response is read. The price is stored when its text differs from the
  current one; every exception is swallowed.
\<close>

definition ticker_poll :: "http_result \<Rightarrow> manager \<Rightarrow> manager" where
  "ticker_poll r m =
     (case r of
        NetworkError \<Rightarrow> m
      | Response st body \<Rightarrow>
          if st = 200
          then (case body of
                  None \<Rightarrow> m
                | Some js \<Rightarrow>
                    (case ticker_price js of
                       Inr (Some p) \<Rightarrow>
                         if py_str p \<noteq> last_price_str m
                         then m\<lparr>prev_price_str := last_price_str m, last_price_str := py_str p\<rparr>
                         else m
                     | _ \<Rightarrow> m))
          else m)"

subsection \<open>Stream dispatch: \<^verbatim>\<open>_on_message\<close>\<close>

text \<open>\<^verbatim>\<open>k in b\<close> for a dict \<open>b\<close>.\<close>

definition has_key :: "(string \<times> jval) list \<Rightarrow> string \<Rightarrow> bool" where
  "has_key kvs k = (map_of kvs k \<noteq> None)"

definition books_shaped :: "jval list \<Rightarrow> bool" where
  "books_shaped blocks =
     list_ex (\<lambda>b. case b of
                    JObj kvs \<Rightarrow> truthy (py_or (dict_get kvs ''bids'') (dict_get kvs ''asks''))
                  | _ \<Rightarrow> False) blocks"

definition trade_shaped :: "jval list \<Rightarrow> bool" where
  "trade_shaped blocks =
     list_ex (\<lambda>b. case b of
                    JObj kvs \<Rightarrow> list_ex (has_key kvs) [''p'', ''price'', ''last'']
                  | _ \<Rightarrow> False) blocks"

fun starts_with :: "string \<Rightarrow> string \<Rightarrow> bool" where
  "starts_with [] s = True"
| "starts_with (p # ps) [] = False"
| "starts_with (p # ps) (c # cs) = (p = c \<and> starts_with ps cs)"

fun str_contains :: "string \<Rightarrow> string \<Rightarrow> bool" where
  "str_contains p [] = (p = [])"
| "str_contains p (c # cs) = (starts_with p (c # cs) \<or> str_contains p cs)"

text \<open>
  \<^verbatim>\<open>"trade" in channel\<close>: a substring test on a string, membership on a list, a key test
  on a dict, \<^verbatim>\<open>TypeError\<close> on a bool or a number.
\<close>

fun trade_in :: "jval \<Rightarrow> py_error + bool" where
  "trade_in (JStr s) = Inr (str_contains ''trade'' s)"
| "trade_in (JArr xs) = Inr (JStr ''trade'' \<in> set xs)"
| "trade_in (JObj kvs) = Inr (has_key kvs ''trade'')"
| "trade_in _ = Inl TypeError"

text \<open>
  The test of the second \<^verbatim>\<open>if\<close>: \<^verbatim>\<open>any(...) or ("trade" in channel)\<close>, the right
  operand evaluated only when the left one is false.
\<close>

definition trade_condition :: "jval list \<Rightarrow> jval \<Rightarrow> py_error + bool" where
  "trade_condition blocks channel =
     (if trade_shaped blocks then Inr True else trade_in channel)"

text \<open>
  The callback. \<open>raw\<close> is \<open>None\<close> when \<^verbatim>\<open>json.loads\<close> raises. The class defines no
  \<^verbatim>\<open>apply_trades\<close>: the method is commented out in both files, so the call
  \<^verbatim>\<open>self.apply_trades(blocks)\<close> raises \<^verbatim>\<open>AttributeError\<close> at the attribute lookup.
  The result is the exception that leaves the callback, if any, and the state.
\<close>

definition on_message :: "jval option \<Rightarrow> manager \<Rightarrow> py_error option \<times> manager" where
  "on_message raw m =
     (case raw of
        None \<Rightarrow> (None, m)
      | Some (JObj kvs) \<Rightarrow>
          if truthy (py_or (dict_get kvs ''event'') (dict_get kvs ''code'')) then (None, m)
          else (case py_or (dict_get kvs ''arg'') (JObj []) of
                  JObj akvs \<Rightarrow>
                    (let channel = py_or (py_or (dict_get akvs ''channel'') (dict_get kvs ''channel''))
                                     (JStr []);
                         data = dict_get kvs ''data''
                     in if data = JNull then (None, m)
                        else
                          (let blocks = (case data of JArr xs \<Rightarrow> xs | _ \<Rightarrow> [data])
                           in case (if books_shaped blocks then apply_books blocks m else (None, m)) of
                                (Some e, m1) \<Rightarrow> (Some e, m1)
                              | (None, m1) \<Rightarrow>
                                  (case trade_condition blocks channel of
                                     Inl e \<Rightarrow> (Some e, m1)
                                   | Inr True \<Rightarrow> (Some AttributeError, m1)
                                   | Inr False \<Rightarrow> (None, m1))))
                | _ \<Rightarrow> (Some AttributeError, m))
      | Some _ \<Rightarrow> (Some AttributeError, m))"

subsection \<open>Reconnect loop: \<^verbatim>\<open>_ws_runloop\<close>\<close>

text \<open>
  One pass of the \<^verbatim>\<open>while\<close> loop is described by what the environment does: whether the
  stop event is set at the loop test, whether \<^verbatim>\<open>run_forever\<close> raises or returns, and
  whether the stop event is set when the handler looks at it. The loop is run over a
  finite list of such passes and gives the sleeps it made, each with the outcome before
  it. The delays \<open>1.0\<close>, \<open>1.5\<close>, ... are binary fractions and the cap is the int
  \<open>10\<close>, so the float arithmetic of the source is exact on them.
\<close>

datatype ws_outcome = Raised | Returned

fun ws_runloop :: "rat \<Rightarrow> (bool \<times> ws_outcome \<times> bool) list \<Rightarrow> (ws_outcome \<times> rat) list" where
  "ws_runloop backoff [] = []"
| "ws_runloop backoff ((stop_at_test, outcome, stop_after) # passes) =
     (if stop_at_test then []
      else case outcome of
             Raised \<Rightarrow>
               if stop_after then []
               else (Raised, backoff) # ws_runloop (min 10 (backoff * (3 / 2))) passes
           | Returned \<Rightarrow>
               if stop_after then []
               else (Returned, 1 / 2) # ws_runloop backoff passes)"

text \<open>The method itself: \<^verbatim>\<open>backoff = 1.0\<close>, then the loop.\<close>

definition ws_runloop_run :: "(bool \<times> ws_outcome \<times> bool) list \<Rightarrow> (ws_outcome \<times> rat) list" where
  "ws_runloop_run passes = ws_runloop 1 passes"

subsection \<open>Lifecycle: \<^verbatim>\<open>start\<close>, \<^verbatim>\<open>stop\<close>, \<^verbatim>\<open>restart\<close>\<close>

text \<open>
  The threads are not part of the state; \<^verbatim>\<open>start\<close> takes the two responses its
  bootstrap receives.
\<close>

definition start :: "http_result \<Rightarrow> http_result \<Rightarrow> manager \<Rightarrow> manager" where
  "start book_resp ticker_resp m =
     (if running m then m
      else (init_snapshot_and_price book_resp ticker_resp m)\<lparr>running := True\<rparr>)"

definition stop :: "manager \<Rightarrow> manager" where
  "stop m = (if \<not> running m then m else m\<lparr>running := False\<rparr>)"

text \<open>
  \<^verbatim>\<open>restart(symbol=None, top_n=None)\<close>: \<^verbatim>\<open>if symbol:\<close> and \<^verbatim>\<open>if top_n:\<close> are
  truthiness tests, false on \<^verbatim>\<open>None\<close>, on the empty string and on \<open>0\<close>.
\<close>

definition restart ::
  "string option \<Rightarrow> int option \<Rightarrow> http_result \<Rightarrow> http_result \<Rightarrow> manager \<Rightarrow> manager" where
  "restart new_symbol new_top_n book_resp ticker_resp m =
     (let m1 = stop m;
          m2 = (case new_symbol of
                  None \<Rightarrow> m1
                | Some s \<Rightarrow> if s \<noteq> [] then m1\<lparr>symbol := s\<rparr> else m1);
          m3 = (case new_top_n of
                  None \<Rightarrow> m2
                | Some n \<Rightarrow> if n \<noteq> 0 then m2\<lparr>top_n := n\<rparr> else m2);
          m4 = clear_books m3
      in start book_resp ticker_resp m4)"

section \<open>Views of the book\<close>

subsection \<open>\<^verbatim>\<open>get_metrics\<close>\<close>

record metrics =
  best_bid :: decimal
  best_ask :: decimal
  spread :: decimal
  spread_pct :: decimal
  imbalance :: decimal

text \<open>\<^verbatim>\<open>max(d.keys()) if d else Decimal(0)\<close> and its twin with \<^verbatim>\<open>min\<close>.\<close>

definition max_price :: "side \<Rightarrow> decimal" where
  "max_price s = (case map fst s of [] \<Rightarrow> 0 | p # ps \<Rightarrow> fold max ps p)"

definition min_price :: "side \<Rightarrow> decimal" where
  "min_price s = (case map fst s of [] \<Rightarrow> 0 | p # ps \<Rightarrow> fold min ps p)"

text \<open>\<^verbatim>\<open>sum(d.values())\<close>.\<close>

definition total_qty :: "side \<Rightarrow> decimal" where
  "total_qty s = sum_list (map snd s)"

text \<open>
  The imbalance is converted to a float in the source; here it is the exact quotient.
  The latency entry reads the clock and is left out.
\<close>

definition get_metrics :: "manager \<Rightarrow> metrics" where
  "get_metrics m =
     (let bb = max_price (bids m);
          ba = min_price (asks m);
          sp = (if bb > 0 \<and> ba > 0 then ba - bb else 0);
          sp_pct = (if bb > 0 \<and> ba > 0 then ((ba - bb) / ba) * 100 else 0);
          total_buy_vol = total_qty (bids m);
          total_sell_vol = total_qty (asks m);
          imb = (if total_buy_vol + total_sell_vol > 0
                 then total_buy_vol / (total_buy_vol + total_sell_vol)
                 else 1 / 2)
      in \<lparr>best_bid = bb, best_ask = ba, spread = sp, spread_pct = sp_pct, imbalance = imb\<rparr>)"

subsection \<open>Ranking by quantity\<close>

text \<open>
  \<^verbatim>\<open>sorted(items, key=lambda x: x[1], reverse=True)\<close>: a stable sort, greatest quantity
  first, items of equal quantity in their order in the dict.
\<close>

definition sorted_by_qty_desc :: "side \<Rightarrow> level list" where
  "sorted_by_qty_desc s = sort_key (\<lambda>l. - snd l) s"

text \<open>The slice \<^verbatim>\<open>xs[:n]\<close>; a negative \<open>n\<close> counts from the end.\<close>

definition py_slice_to :: "int \<Rightarrow> 'a list \<Rightarrow> 'a list" where
  "py_slice_to n xs =
     (if 0 \<le> n then take (nat n) xs else take (length xs - nat (- n)) xs)"

definition top_levels :: "int \<Rightarrow> side \<Rightarrow> level list" where
  "top_levels n s = py_slice_to n (sorted_by_qty_desc s)"

record support_resistance =
  supports :: "level list"
  resistances :: "level list"

definition get_support_resistance :: "int \<Rightarrow> manager \<Rightarrow> support_resistance" where
  "get_support_resistance count m =
     \<lparr>supports = top_levels count (bids m), resistances = top_levels count (asks m)\<rparr>"

subsection \<open>Nearest-to-price marks of \<^verbatim>\<open>build_dataframe\<close>\<close>







section \<open>Predicates of the properties\<close>

text \<open>
  Every quantity stored in a side, or in both sides of the book, satisfies \<open>P\<close>; and
  the same for the quantities that a raw list of levels, the blocks of a stream message
  or a snapshot response would have the loops parse (the second field of every entry
  that can be indexed).
\<close>

definition side_all :: "(decimal \<Rightarrow> bool) \<Rightarrow> side \<Rightarrow> bool" where
  "side_all P s = list_all (\<lambda>l. P (snd l)) s"

definition book_all :: "(decimal \<Rightarrow> bool) \<Rightarrow> manager \<Rightarrow> bool" where
  "book_all P m = (side_all P (bids m) \<and> side_all P (asks m))"

definition raw_qtys_all :: "(decimal \<Rightarrow> bool) \<Rightarrow> jval list \<Rightarrow> bool" where
  "raw_qtys_all P its =
     list_all (\<lambda>it. case py_index it 1 of Inr b \<Rightarrow> P (D b) | Inl e \<Rightarrow> True) its"

definition side_qtys_all :: "(decimal \<Rightarrow> bool) \<Rightarrow> jval \<Rightarrow> bool" where
  "side_qtys_all P raw = (case py_iter raw of None \<Rightarrow> True | Some its \<Rightarrow> raw_qtys_all P its)"

definition blocks_qtys_all :: "(decimal \<Rightarrow> bool) \<Rightarrow> jval list \<Rightarrow> bool" where
  "blocks_qtys_all P blocks =
     list_all (\<lambda>b. case b of
                     JObj kvs \<Rightarrow> side_qtys_all P (dict_get_default kvs ''bids'' (JArr []))
                               \<and> side_qtys_all P (dict_get_default kvs ''asks'' (JArr []))
                   | _ \<Rightarrow> True) blocks"

definition snapshot_qtys_all :: "(decimal \<Rightarrow> bool) \<Rightarrow> http_result \<Rightarrow> bool" where
  "snapshot_qtys_all P r =
     (case snapshot_inputs r of
        Inl e \<Rightarrow> True
      | Inr (raw_bids, raw_asks) \<Rightarrow> side_qtys_all P raw_bids \<and> side_qtys_all P raw_asks)"

subsection \<open>Sample inputs\<close>

text \<open>
  A stream delta and the snapshot of the spec's bootstrap scenario, used to run the
  theorems on concrete data.
\<close>

definition sample_delta :: "jval list" where
  "sample_delta =
     [JObj [(''bids'', JArr [JArr [JStr ''100.5'', JStr ''2''], JArr [JStr ''99'', JStr ''0'']]),
            (''asks'', JArr [JArr [JStr ''101'', JStr ''3'']])]]"

definition sample_snapshot :: http_result where
  "sample_snapshot =
     Response 200 (Some (JObj [(''data'', JObj
       [(''bids'', JArr [JArr [JStr ''100.00'', JStr ''2''], JArr [JStr ''99.50'', JStr ''5'']]),
        (''asks'', JArr [JArr [JStr ''100.50'', JStr ''1''], JArr [JStr ''101.00'', JStr ''3'']])])]))"

text \<open>
  A message of the trade channel, the ticker response of the spec's price scenario, and a
  manager as a run leaves it: levels on both sides and two different prices.
\<close>

definition sample_trade_msg :: jval where
  "sample_trade_msg =
     JObj [(''action'', JStr ''update''),
           (''arg'', JObj [(''instType'', JStr ''SPOT''), (''channel'', JStr ''trade''),
                           (''instId'', JStr ''BTCUSDT'')]),
           (''data'', JArr [JObj [(''ts'', JStr ''1695716760565''), (''price'', JStr ''100.50''),
                                  (''size'', JStr ''0.001''), (''side'', JStr ''buy''),
                                  (''tradeId'', JStr ''1'')]])]"

definition sample_ticker :: http_result where
  "sample_ticker = Response 200 (Some (JObj [(''code'', JStr ''00000''),
       (''data'', JArr [JObj [(''symbol'', JStr ''BTCUSDT''), (''lastPr'', JStr ''100.00'')]])]))"

definition prior_run :: manager where
  "prior_run = init_manager\<lparr>bids := [(100, 2)], asks := [(101, 3)],
      last_price_str := ''100.00'', prev_price_str := ''99.50'', running := True\<rparr>"

subsection \<open>Outcomes of the bootstrap requests\<close>




subsection \<open>Passes of the reconnect loop\<close>

text \<open>
  The delays slept after a raised exception, in order; a pass in which
  \<^verbatim>\<open>run_forever\<close> raises and a pass in which it returns, the stop event unset in both.
\<close>

definition raised_delays :: "(ws_outcome \<times> rat) list \<Rightarrow> rat list" where
  "raised_delays sleeps = map snd (filter (\<lambda>e. fst e = Raised) sleeps)"

definition failure :: "bool \<times> ws_outcome \<times> bool" where
  "failure = (False, Raised, False)"

definition clean_close :: "bool \<times> ws_outcome \<times> bool" where
  "clean_close = (False, Returned, False)"

subsection \<open>Books for the metrics\<close>


definition zero_price_delta :: "jval list" where
  "zero_price_delta =
     [JObj [(''bids'', JArr [JArr [JStr ''0'', JStr ''1'']]),
            (''asks'', JArr [JArr [JStr ''5'', JStr ''1'']])]]"


definition prices_positive :: "manager \<Rightarrow> bool" where
  "prices_positive m = (list_all (\<lambda>l. 0 < fst l) (bids m) \<and> list_all (\<lambda>l. 0 < fst l) (asks m))"

subsection \<open>Nearest row\<close>




section \<open>Evaluation rules\<close>

lemmas decimal_eval =
  parse_decimal_def parse_decimal_part_def parse_exponent_def is_indicator_def
  is_digit_def digit_of_def scale10_def

lemmas book_eval =
  book_all_def side_all_def raw_qtys_all_def side_qtys_all_def blocks_qtys_all_def
  snapshot_qtys_all_def snapshot_inputs_def init_snapshot_books_def dict_get_def
  dict_get_default_def py_or_def init_manager_def

section \<open>The quantities stored in the book\<close>



lemma set_dict_pop: "set (dict_pop k s) \<subseteq> set s"
  by (induction s) (auto split: if_splits)

lemma keys_dict_pop: "fst ` set (dict_pop k s) \<subseteq> fst ` set s"
  by (rule image_mono) (rule set_dict_pop)













lemma sample_delta_run:
  "snd (apply_books sample_delta init_manager) = init_manager\<lparr>bids := [(201/2, 2)], asks := [(101, 3)]\<rparr>"
  by (simp add: sample_delta_def decimal_eval book_eval)

lemma sample_snapshot_run:
  "init_snapshot_books sample_snapshot init_manager
     = init_manager\<lparr>bids := [(100, 2), (199/2, 5)], asks := [(201/2, 1), (101, 3)]\<rparr>"
  by (simp add: sample_snapshot_def decimal_eval book_eval)




section \<open>Stream dispatch and the ticker\<close>

lemma apply_books_last: "last_price_str (snd (apply_books blocks m)) = last_price_str m"
  by (induction blocks m rule: apply_books.induct) (auto simp: Let_def split: option.splits)

lemma apply_books_prev: "prev_price_str (snd (apply_books blocks m)) = prev_price_str m"
  by (induction blocks m rule: apply_books.induct) (auto simp: Let_def split: option.splits)

lemma on_message_last: "last_price_str (snd (on_message raw m)) = last_price_str m"
  using apply_books_last [of _ m]
  by (auto simp: on_message_def Let_def split: option.splits jval.splits prod.splits sum.splits
      bool.splits if_splits) (metis snd_conv)+

lemma on_message_prev: "prev_price_str (snd (on_message raw m)) = prev_price_str m"
  using apply_books_prev [of _ m]
  by (auto simp: on_message_def Let_def split: option.splits jval.splits prod.splits sum.splits
      bool.splits if_splits) (metis snd_conv)+

lemmas msg_eval = on_message_def books_shaped_def trade_shaped_def trade_condition_def
  has_key_def dict_get_def dict_get_default_def py_or_def init_manager_def

text \<open>
  C1. The claim asks that a data message with trade-shaped entries, or of a trade
  channel, updates the ticker with the latest price of the batch. The dispatch does
  reach the call for such a message, but the method it calls is not defined, so no
  message ever changes either price field; on the sample trade message the callback
  ends with \<^verbatim>\<open>AttributeError\<close> and the state it started from.
\<close>

theorem on_message_trade_not_applied:
  "last_price_str (snd (on_message raw m)) = last_price_str m
   \<and> prev_price_str (snd (on_message raw m)) = prev_price_str m
   \<and> on_message (Some sample_trade_msg) init_manager = (Some AttributeError, init_manager)"
  by (simp add: on_message_last on_message_prev) (simp add: sample_trade_msg_def msg_eval)

section \<open>When the previous price moves\<close>

text \<open>
  C3. The claim asks that a price equal to the current one leaves both fields as they
  are, on every path. The poll loop does so; the bootstrap, given the same response,
  copies the current price over the previous one.
\<close>

theorem bootstrap_shifts_unchanged_price:
  "init_snapshot_ticker sample_ticker prior_run = prior_run\<lparr>prev_price_str := ''100.00''\<rparr>
   \<and> ticker_poll sample_ticker prior_run = prior_run"
  by (simp add: init_snapshot_ticker_def ticker_poll_def ticker_price_def sample_ticker_def
      prior_run_def msg_eval)

section \<open>Restart\<close>

lemma init_snapshot_books_fields:
  "symbol (init_snapshot_books r m) = symbol m"
  "top_n (init_snapshot_books r m) = top_n m"
  "running (init_snapshot_books r m) = running m"
  "last_price_str (init_snapshot_books r m) = last_price_str m"
  "prev_price_str (init_snapshot_books r m) = prev_price_str m"
  by (simp_all add: init_snapshot_books_def Let_def split: sum.splits option.splits prod.splits)

lemma init_snapshot_ticker_fields:
  "symbol (init_snapshot_ticker r m) = symbol m"
  "top_n (init_snapshot_ticker r m) = top_n m"
  "running (init_snapshot_ticker r m) = running m"
  "bids (init_snapshot_ticker r m) = bids m"
  "asks (init_snapshot_ticker r m) = asks m"
  by (simp_all add: init_snapshot_ticker_def split: sum.splits option.splits)

lemma init_snapshot_and_price_fields:
  "symbol (init_snapshot_and_price br tr m) = symbol m"
  "top_n (init_snapshot_and_price br tr m) = top_n m"
  "bids (init_snapshot_and_price br tr m) = bids (init_snapshot_books br m)"
  "asks (init_snapshot_and_price br tr m) = asks (init_snapshot_books br m)"
  by (simp_all add: init_snapshot_and_price_def init_snapshot_books_fields
      init_snapshot_ticker_fields)

lemma init_snapshot_books_from_empty:
  "bids m = [] \<Longrightarrow> asks m = [] \<Longrightarrow>
   bids (init_snapshot_books r m) = bids (init_snapshot_books r init_manager)
   \<and> asks (init_snapshot_books r m) = asks (init_snapshot_books r init_manager)"
  by (simp add: init_snapshot_books_def init_manager_def Let_def
      split: sum.splits option.splits prod.splits)

lemma restart_unfold:
  "restart new_symbol new_top_n br tr m =
     (init_snapshot_and_price br tr
        (clear_books
           (let m1 = stop m;
                m2 = (case new_symbol of
                        None \<Rightarrow> m1
                      | Some s \<Rightarrow> if s \<noteq> [] then m1\<lparr>symbol := s\<rparr> else m1)
            in case new_top_n of
                 None \<Rightarrow> m2
               | Some n \<Rightarrow> if n \<noteq> 0 then m2\<lparr>top_n := n\<rparr> else m2)))\<lparr>running := True\<rparr>"
  by (simp add: restart_def Let_def start_def clear_books_def stop_def split: option.splits)

lemma restart_symbol:
  "symbol (restart new_symbol new_top_n br tr m) =
     (case new_symbol of None \<Rightarrow> symbol m | Some s \<Rightarrow> if s \<noteq> [] then s else symbol m)"
  by (simp add: restart_unfold init_snapshot_and_price_fields clear_books_def stop_def Let_def
      split: option.splits)

lemma restart_top_n:
  "top_n (restart new_symbol new_top_n br tr m) =
     (case new_top_n of None \<Rightarrow> top_n m | Some n \<Rightarrow> if n \<noteq> 0 then n else top_n m)"
  by (simp add: restart_unfold init_snapshot_and_price_fields clear_books_def stop_def Let_def
      split: option.splits)

lemma restart_running: "running (restart new_symbol new_top_n br tr m)"
  by (simp add: restart_unfold)

lemma restart_books:
  "bids (restart new_symbol new_top_n br tr m) = bids (init_snapshot_books br init_manager)
   \<and> asks (restart new_symbol new_top_n br tr m) = asks (init_snapshot_books br init_manager)"
  by (simp add: restart_unfold init_snapshot_and_price_fields clear_books_def
      init_snapshot_books_from_empty)

text \<open>
  C10. \<^verbatim>\<open>restart(symbol, top_n)\<close> leaves the tracked symbol as it is when the argument
  is \<^verbatim>\<open>None\<close> or the empty string, and the depth as it is when the argument is
  \<^verbatim>\<open>None\<close> or \<open>0\<close>; any other argument is applied. The manager runs afterwards, and
  its book holds what the bootstrap stores into an empty book.
\<close>

theorem restart_applies_truthy_arguments:
  "(new_symbol = None \<or> new_symbol = Some [] \<longrightarrow> symbol (restart new_symbol new_top_n br tr m) = symbol m)
   \<and> (\<forall>s. new_symbol = Some s \<and> s \<noteq> [] \<longrightarrow> symbol (restart new_symbol new_top_n br tr m) = s)
   \<and> (new_top_n = None \<or> new_top_n = Some 0 \<longrightarrow> top_n (restart new_symbol new_top_n br tr m) = top_n m)
   \<and> (\<forall>n. new_top_n = Some n \<and> n \<noteq> 0 \<longrightarrow> top_n (restart new_symbol new_top_n br tr m) = n)
   \<and> running (restart new_symbol new_top_n br tr m)
   \<and> bids (restart new_symbol new_top_n br tr m) = bids (init_snapshot_books br init_manager)
   \<and> asks (restart new_symbol new_top_n br tr m) = asks (init_snapshot_books br init_manager)"
  using restart_symbol [of new_symbol new_top_n br tr m]
    restart_top_n [of new_symbol new_top_n br tr m]
    restart_running [of new_symbol new_top_n br tr m]
    restart_books [of new_symbol new_top_n br tr m]
  by auto

theorem restart_applies_truthy_arguments_witness:
  "symbol (restart (Some []) (Some 0) NetworkError NetworkError prior_run) = ''BTCUSDT''
   \<and> top_n (restart None None NetworkError NetworkError prior_run) = 5
   \<and> symbol (restart (Some ''ETHUSDT'') (Some 20) NetworkError NetworkError prior_run) = ''ETHUSDT''
   \<and> top_n (restart (Some ''ETHUSDT'') (Some 20) NetworkError NetworkError prior_run) = 20"
  using restart_applies_truthy_arguments [of "Some []" "Some 0" NetworkError NetworkError prior_run]
    restart_applies_truthy_arguments [of None None NetworkError NetworkError prior_run]
    restart_applies_truthy_arguments [of "Some ''ETHUSDT''" "Some 20" NetworkError NetworkError prior_run]
  by (simp add: prior_run_def init_manager_def)

section \<open>A failed bootstrap\<close>








section \<open>Reconnect backoff\<close>

lemma capped_step:
  fixes b :: rat
  assumes "0 \<le> b"
  shows "min 10 (min 10 (b * (3 / 2)) * (3 / 2) ^ i) = min 10 (b * (3 / 2) ^ Suc i)"
proof (cases "b * (3 / 2) \<le> 10")
  case True
  then show ?thesis by (simp add: mult.assoc)
next
  case False
  have one: "(1 :: rat) \<le> (3 / 2) ^ i" by (rule one_le_power) simp
  have "10 * 1 \<le> 10 * (3 / 2 :: rat) ^ i"
    by (rule mult_left_mono [OF one]) simp
  then have l: "min 10 (10 * (3 / 2 :: rat) ^ i) = 10" by simp
  have nn: "0 \<le> b * (3 / 2)" using assms by simp
  have "b * (3 / 2) * 1 \<le> b * (3 / 2) * (3 / 2) ^ i"
    by (rule mult_left_mono [OF one nn])
  moreover have "b * (3 / 2) ^ Suc i = b * (3 / 2) * (3 / 2) ^ i"
    by (simp only: power_Suc mult.assoc)
  ultimately have "10 \<le> b * (3 / 2) ^ Suc i" using False by linarith
  then have r: "min 10 (b * (3 / 2) ^ Suc i) = 10" by (simp only: min_def if_True)
  have m: "min 10 (b * (3 / 2)) = 10" using False by (simp add: min_def)
  show ?thesis by (simp only: m l r)
qed

lemma ws_runloop_failures:
  "0 \<le> b \<Longrightarrow> b \<le> 10 \<Longrightarrow>
   ws_runloop b (replicate k failure) = map (\<lambda>i. (Raised, min 10 (b * (3 / 2) ^ i))) [0..<k]"
proof (induction k arbitrary: b)
  case 0
  then show ?case by simp
next
  case (Suc k)
  have nb: "0 \<le> min 10 (b * (3 / 2))" "min 10 (b * (3 / 2)) \<le> 10"
    using Suc.prems by simp_all
  have "ws_runloop b (replicate (Suc k) failure)
          = (Raised, b) # ws_runloop (min 10 (b * (3 / 2))) (replicate k failure)"
    by (simp add: failure_def)
  also have "\<dots> = (Raised, b) # map (\<lambda>i. (Raised, min 10 (b * (3 / 2) ^ Suc i))) [0..<k]"
    using Suc.IH [OF nb] capped_step [OF Suc.prems(1)] by simp
  also have "\<dots> = map (\<lambda>i. (Raised, min 10 (b * (3 / 2) ^ i))) [0..<Suc k]"
    using Suc.prems(2) by (simp add: upt_conv_Cons map_Suc_upt [symmetric] del: upt_Suc)
  finally show ?case .
qed

lemma raised_delays_bounds:
  "1 \<le> b \<Longrightarrow> b \<le> 10 \<Longrightarrow>
   sorted (raised_delays (ws_runloop b passes))
   \<and> (\<forall>d \<in> set (raised_delays (ws_runloop b passes)). b \<le> d \<and> d \<le> 10)"
proof (induction b passes rule: ws_runloop.induct)
  case (1 backoff)
  then show ?case by (simp add: raised_delays_def)
next
  case (2 backoff stop_at_test outcome stop_after passes)
  show ?case
  proof (cases "stop_at_test \<or> stop_after")
    case True
    then show ?thesis by (auto simp: raised_delays_def split: ws_outcome.splits)
  next
    case False
    show ?thesis
    proof (cases outcome)
      case Raised
      have nb: "1 \<le> min 10 (backoff * (3 / 2))" "min 10 (backoff * (3 / 2)) \<le> 10"
        "backoff \<le> min 10 (backoff * (3 / 2))"
        using "2.prems" by simp_all
      from "2.IH"(1) [OF _ Raised _ nb(1,2)] False Raised nb(3) "2.prems"
      show ?thesis by (fastforce simp: raised_delays_def)
    next
      case Returned
      from "2.IH"(2) [OF _ Returned _ "2.prems"] False Returned
      show ?thesis by (simp add: raised_delays_def)
    qed
  qed
qed

text \<open>
  C5 (as amended). The delay slept after a failure starts at 1, is multiplied by 1.5
  after each failure and capped at 10: after \<open>k\<close> failures in a row the delays are
  \<open>min 10 (1.5 ^ i)\<close> for \<open>i < k\<close>, which is 1, 1.5, 2.25 for three. Over any run of
  the loop the failure delays are non-decreasing and lie between 1 and 10. A pass that
  returns sleeps 0.5 and leaves the backoff as it is: it is never reset inside the loop.
\<close>

theorem backoff_delays:
  "ws_runloop_run (replicate k failure) = map (\<lambda>i. (Raised, min 10 ((3 / 2) ^ i))) [0..<k]
   \<and> ws_runloop_run [failure, failure, failure] = [(Raised, 1), (Raised, 3 / 2), (Raised, 9 / 4)]
   \<and> sorted (raised_delays (ws_runloop_run passes))
   \<and> (\<forall>d \<in> set (raised_delays (ws_runloop_run passes)). 1 \<le> d \<and> d \<le> 10)
   \<and> ws_runloop b (clean_close # passes) = (Returned, 1 / 2) # ws_runloop b passes"
  using ws_runloop_failures [of 1 k] raised_delays_bounds [of 1 passes]
  by (simp add: ws_runloop_run_def failure_def clean_close_def)

theorem backoff_delays_witness:
  "raised_delays (ws_runloop_run [failure, clean_close, failure, failure]) = [1, 3 / 2, 9 / 4]
   \<and> sorted (raised_delays (ws_runloop_run [failure, clean_close, failure, failure]))
   \<and> ws_runloop_run (replicate 8 failure) =
       [(Raised, 1), (Raised, 3 / 2), (Raised, 9 / 4), (Raised, 27 / 8), (Raised, 81 / 16),
        (Raised, 243 / 32), (Raised, 10), (Raised, 10)]"
proof -
  have e: "raised_delays (ws_runloop_run [failure, clean_close, failure, failure]) = [1, 3 / 2, 9 / 4]"
    by (simp add: raised_delays_def ws_runloop_run_def failure_def clean_close_def)
  from backoff_delays [of 8 "[failure, clean_close, failure, failure]"]
  have s: "sorted (raised_delays (ws_runloop_run [failure, clean_close, failure, failure]))"
    and f: "ws_runloop_run (replicate 8 failure) =
              map (\<lambda>i. (Raised, min 10 ((3 / 2) ^ i))) [0..<8]"
    by blast+
  have u: "[0..<8] = [0, 1, 2, 3, 4, 5, 6, 7]"
    by (simp add: upt_rec)
  have "ws_runloop_run (replicate 8 failure) =
       [(Raised, 1), (Raised, 3 / 2), (Raised, 9 / 4), (Raised, 27 / 8), (Raised, 81 / 16),
        (Raised, 243 / 32), (Raised, 10), (Raised, 10)]"
    unfolding f u by (simp add: power_numeral_reduce)
  with e s show ?thesis by blast
qed

text \<open>
  C5 as stated fails: after two failures and a connection that returned, the next
  failure sleeps 2.25, not the initial 1.
\<close>

theorem backoff_reset_counterexample:
  "ws_runloop_run [failure, failure, clean_close, failure]
     = [(Raised, 1), (Raised, 3 / 2), (Returned, 1 / 2), (Raised, 9 / 4)]
   \<and> raised_delays (ws_runloop_run [failure, failure, clean_close, failure]) \<noteq> [1, 3 / 2, 1]"
  by (simp add: raised_delays_def ws_runloop_run_def failure_def clean_close_def)

section \<open>Imbalance\<close>







section \<open>Best prices and spread\<close>

lemma max_price_Max: "s \<noteq> [] \<Longrightarrow> max_price s = Max (fst ` set s)"
  by (cases s) (simp_all add: max_price_def Max.set_eq_fold [symmetric])

lemma min_price_Min: "s \<noteq> [] \<Longrightarrow> min_price s = Min (fst ` set s)"
  by (cases s) (simp_all add: min_price_def Min.set_eq_fold [symmetric])

lemma max_price_positive:
  assumes "s \<noteq> []" and "list_all (\<lambda>l. 0 < fst l) s"
  shows "0 < max_price s"
proof -
  from assms(1) obtain l where l: "l \<in> set s" by (cases s) auto
  with assms(2) have "0 < fst l" by (simp add: list_all_iff)
  moreover have "fst l \<le> Max (fst ` set s)" using l by (intro Max_ge) simp_all
  ultimately show ?thesis using assms(1) by (simp add: max_price_Max)
qed

lemma min_price_positive:
  assumes "s \<noteq> []" and "list_all (\<lambda>l. 0 < fst l) s"
  shows "0 < min_price s"
proof -
  have "Min (fst ` set s) \<in> fst ` set s" using assms(1) by (intro Min_in) simp_all
  with assms(2) have "0 < Min (fst ` set s)" by (auto simp: list_all_iff)
  then show ?thesis using assms(1) by (simp add: min_price_Min)
qed

lemma best_bid_eq: "best_bid (get_metrics m) = max_price (bids m)"
  by (simp add: get_metrics_def Let_def)

lemma best_ask_eq: "best_ask (get_metrics m) = min_price (asks m)"
  by (simp add: get_metrics_def Let_def)

lemma spread_eq:
  "spread (get_metrics m) =
     (if 0 < max_price (bids m) \<and> 0 < min_price (asks m)
      then min_price (asks m) - max_price (bids m) else 0)"
  by (simp add: get_metrics_def Let_def)

lemma spread_pct_eq:
  "spread_pct (get_metrics m) =
     (if 0 < max_price (bids m) \<and> 0 < min_price (asks m)
      then (min_price (asks m) - max_price (bids m)) / min_price (asks m) * 100 else 0)"
  by (simp add: get_metrics_def Let_def)

lemma price_of_empty: "max_price [] = 0" "min_price [] = 0"
  by (simp_all add: max_price_def min_price_def)

text \<open>
  C7 (as amended). Best bid is the greatest bid price and best ask the least ask price,
  0 for an empty side. The spread is best ask minus best bid when both best prices are
  greater than 0, and 0 otherwise: so it is 0 when a side is empty, and it is the
  difference when both sides are present and every price is positive. Spread percent
  is spread divided by best ask times 100 when best ask is greater than 0.
\<close>

theorem metrics_of_book:
  "best_bid (get_metrics m) = (if bids m = [] then 0 else Max (fst ` set (bids m)))
   \<and> best_ask (get_metrics m) = (if asks m = [] then 0 else Min (fst ` set (asks m)))
   \<and> spread (get_metrics m) =
        (if 0 < best_bid (get_metrics m) \<and> 0 < best_ask (get_metrics m)
         then best_ask (get_metrics m) - best_bid (get_metrics m) else 0)
   \<and> (bids m = [] \<or> asks m = [] \<longrightarrow> spread (get_metrics m) = 0)
   \<and> (bids m \<noteq> [] \<and> asks m \<noteq> [] \<and> prices_positive m \<longrightarrow>
        spread (get_metrics m) = best_ask (get_metrics m) - best_bid (get_metrics m))
   \<and> (0 < best_ask (get_metrics m) \<longrightarrow>
        spread_pct (get_metrics m) = spread (get_metrics m) / best_ask (get_metrics m) * 100)"
proof -
  have c1: "best_bid (get_metrics m) = (if bids m = [] then 0 else Max (fst ` set (bids m)))"
    by (cases "bids m = []") (simp_all add: best_bid_eq price_of_empty max_price_Max)
  have c2: "best_ask (get_metrics m) = (if asks m = [] then 0 else Min (fst ` set (asks m)))"
    by (cases "asks m = []") (simp_all add: best_ask_eq price_of_empty min_price_Min)
  have c3: "spread (get_metrics m) =
        (if 0 < best_bid (get_metrics m) \<and> 0 < best_ask (get_metrics m)
         then best_ask (get_metrics m) - best_bid (get_metrics m) else 0)"
    by (simp only: best_bid_eq best_ask_eq spread_eq)
  have c4: "spread (get_metrics m) = 0" if "bids m = [] \<or> asks m = []"
    using that by (auto simp add: spread_eq price_of_empty)
  have c5: "spread (get_metrics m) = best_ask (get_metrics m) - best_bid (get_metrics m)"
    if h: "bids m \<noteq> [] \<and> asks m \<noteq> [] \<and> prices_positive m"
  proof -
    from h have "0 < max_price (bids m)" "0 < min_price (asks m)"
      by (simp_all add: prices_positive_def max_price_positive min_price_positive)
    then show ?thesis by (simp add: spread_eq best_bid_eq best_ask_eq)
  qed
  have c6: "spread_pct (get_metrics m) = spread (get_metrics m) / best_ask (get_metrics m) * 100"
    if "0 < best_ask (get_metrics m)"
    by (simp add: spread_eq spread_pct_eq best_ask_eq)
  from c1 c2 c3 c4 c5 c6 show ?thesis by blast
qed

theorem metrics_of_book_witness:
  "bids prior_run \<noteq> [] \<and> asks prior_run \<noteq> [] \<and> prices_positive prior_run
   \<and> 0 < best_ask (get_metrics prior_run)
   \<and> spread (get_metrics prior_run) = 1
   \<and> spread_pct (get_metrics prior_run) = 100 / 101
   \<and> (bids init_manager = [] \<or> asks init_manager = [])
   \<and> spread (get_metrics init_manager) = 0"
proof -
  have h1: "bids prior_run \<noteq> [] \<and> asks prior_run \<noteq> [] \<and> prices_positive prior_run"
    by (simp add: prior_run_def init_manager_def prices_positive_def)
  have v: "best_ask (get_metrics prior_run) = 101" "best_bid (get_metrics prior_run) = 100"
    by (simp_all add: prior_run_def init_manager_def get_metrics_def Let_def max_price_def
        min_price_def)
  have h2: "0 < best_ask (get_metrics prior_run)" by (simp add: v)
  have h3: "bids init_manager = [] \<or> asks init_manager = []"
    by (simp add: init_manager_def)
  from metrics_of_book [of prior_run] h1
  have s: "spread (get_metrics prior_run) =
             best_ask (get_metrics prior_run) - best_bid (get_metrics prior_run)"
    by blast
  from metrics_of_book [of prior_run] h2
  have p: "spread_pct (get_metrics prior_run) =
             spread (get_metrics prior_run) / best_ask (get_metrics prior_run) * 100"
    by blast
  from metrics_of_book [of init_manager] h3
  have z: "spread (get_metrics init_manager) = 0" by blast
  have "spread (get_metrics prior_run) = 1" by (simp add: s v)
  moreover from this have "spread_pct (get_metrics prior_run) = 100 / 101" by (simp add: p v)
  ultimately show ?thesis using h1 h2 h3 z by blast
qed

text \<open>
  C7 as stated fails: after a delta that stores a bid at price \<open>0\<close> both sides are
  present, best ask minus best bid is 5, and the spread is 0.
\<close>

theorem spread_counterexample:
  "bids (snd (apply_books zero_price_delta init_manager)) = [(0, 1)]
   \<and> asks (snd (apply_books zero_price_delta init_manager)) = [(5, 1)]
   \<and> best_ask (get_metrics (snd (apply_books zero_price_delta init_manager))) = 5
   \<and> best_bid (get_metrics (snd (apply_books zero_price_delta init_manager))) = 0
   \<and> spread (get_metrics (snd (apply_books zero_price_delta init_manager))) = 0"
  by (simp add: zero_price_delta_def get_metrics_def max_price_def min_price_def Let_def
      decimal_eval book_eval)

section \<open>Top-N selection\<close>

lemma py_slice_to_take: "\<exists>k. py_slice_to n xs = take k xs"
  by (auto simp: py_slice_to_def)

lemma length_py_slice_to: "0 \<le> n \<Longrightarrow> length (py_slice_to n xs) = min (nat n) (length xs)"
  by (simp add: py_slice_to_def min.commute)

lemma sorted_take_below:
  assumes "sorted (map f xs)" and "r \<in> set (take k xs)" and "u \<in> set xs"
    and "u \<notin> set (take k xs)"
  shows "f r \<le> f u"
proof -
  have "set xs = set (take k xs) \<union> set (drop k xs)"
    by (metis append_take_drop_id set_append)
  with assms(3,4) have u: "u \<in> set (drop k xs)" by blast
  have "sorted (map f (take k xs) @ map f (drop k xs))"
    using assms(1) by (metis append_take_drop_id map_append)
  then have "\<forall>x \<in> set (map f (take k xs)). \<forall>y \<in> set (map f (drop k xs)). x \<le> y"
    by (simp add: sorted_append)
  with assms(2) u show ?thesis by simp
qed

lemma sorted_by_qty_desc_sorted: "sorted (map (\<lambda>l. - snd l) (sorted_by_qty_desc s))"
  by (simp add: sorted_by_qty_desc_def)

lemma set_sorted_by_qty_desc: "set (sorted_by_qty_desc s) = set s"
  by (simp add: sorted_by_qty_desc_def)

lemma top_levels_subset: "set (top_levels n s) \<subseteq> set s"
proof -
  obtain k where "py_slice_to n (sorted_by_qty_desc s) = take k (sorted_by_qty_desc s)"
    using py_slice_to_take by blast
  then show ?thesis
    using set_take_subset [of k "sorted_by_qty_desc s"]
    by (simp add: top_levels_def set_sorted_by_qty_desc)
qed

lemma top_levels_dominate:
  assumes "r \<in> set (top_levels n s)" and "u \<in> set s" and "u \<notin> set (top_levels n s)"
  shows "snd u \<le> snd r"
proof -
  obtain k where k: "top_levels n s = take k (sorted_by_qty_desc s)"
    using py_slice_to_take [of n "sorted_by_qty_desc s"] by (auto simp: top_levels_def)
  have "- snd r \<le> - snd u"
    using sorted_take_below [OF sorted_by_qty_desc_sorted, of r k s u] assms
    by (simp add: k set_sorted_by_qty_desc)
  then show ?thesis by simp
qed

text \<open>
  C8. For every side and every \<open>N \<ge> 0\<close>, the selection
  \<^verbatim>\<open>sorted(items, key=qty, reverse=True)[:N]\<close> of \<^verbatim>\<open>build_dataframe\<close>, which is also the
  selection of \<^verbatim>\<open>get_support_resistance\<close>, returns at most \<open>N\<close> rows, all of them rows
  of the side, and the quantity of every returned row is at least the quantity of
  every row of the side that was not returned.
\<close>

theorem top_selection:
  "(0 \<le> N \<longrightarrow> int (length (top_levels N s)) \<le> N
                \<and> length (top_levels N s) = min (nat N) (length s))
   \<and> set (top_levels N s) \<subseteq> set s
   \<and> (\<forall>r \<in> set (top_levels N s). \<forall>u \<in> set s - set (top_levels N s). snd u \<le> snd r)
   \<and> supports (get_support_resistance N m) = top_levels N (bids m)
   \<and> resistances (get_support_resistance N m) = top_levels N (asks m)"
proof -
  have l: "length (top_levels N s) = min (nat N) (length s)" if "0 \<le> N"
    using that by (simp add: top_levels_def length_py_slice_to sorted_by_qty_desc_def)
  have l': "int (length (top_levels N s)) \<le> N" if "0 \<le> N"
    using l [OF that] that by simp
  have d: "\<forall>r \<in> set (top_levels N s). \<forall>u \<in> set s - set (top_levels N s). snd u \<le> snd r"
    using top_levels_dominate by blast
  from l l' d top_levels_subset [of N s] show ?thesis
    by (simp add: get_support_resistance_def)
qed

theorem top_selection_witness:
  "(0 :: int) \<le> 2
   \<and> top_levels 2 [(100, 2), (99, 5), (98, 1), (97, 5)] = [(99, 5), (97, 5)]
   \<and> int (length (top_levels 2 [(100, 2), (99, 5), (98, 1), (97, 5)])) \<le> 2
   \<and> snd ((100, 2) :: level) \<le> snd (top_levels 2 [(100, 2), (99, 5), (98, 1), (97, 5)] ! 1)"
proof -
  have e: "top_levels 2 [(100, 2), (99, 5), (98, 1), (97, 5)] = [(99, 5), (97, 5)]"
    by (simp add: top_levels_def py_slice_to_def sorted_by_qty_desc_def)
  have h: "(0 :: int) \<le> 2" by simp
  have r: "top_levels 2 [(100, 2), (99, 5), (98, 1), (97, 5)] ! 1
             \<in> set (top_levels 2 [(100, 2), (99, 5), (98, 1), (97, 5)])"
    by (simp add: e)
  have u: "((100, 2) :: level) \<in> set [(100, 2), (99, 5), (98, 1), (97, 5)]
             - set (top_levels 2 [(100, 2), (99, 5), (98, 1), (97, 5)])"
    by (simp add: e)
  from top_selection [of 2 "[(100, 2), (99, 5), (98, 1), (97, 5)]" init_manager] h r u
  have "int (length (top_levels 2 [(100, 2), (99, 5), (98, 1), (97, 5)])) \<le> 2"
    "snd ((100, 2) :: level) \<le> snd (top_levels 2 [(100, 2), (99, 5), (98, 1), (97, 5)] ! 1)"
    by blast+
  with h e show ?thesis by blast
qed

section \<open>Nearest-to-price mark\<close>










end
